theory Spec2Isabelle
  imports Main "HOL-Library.Word"
begin

unbundle bit_operations_syntax

section \<open>Host objects\<close>

text \<open>
  The plugin runs inside the game and reads the game's entities through wrapper
  objects (\<open>ParkRide\<close>, \<open>RideTrain\<close>, \<open>RideVehicle\<close>, \<open>RideType\<close>) whose classes are
  not part of the sources at hand. Their values are kept abstract (type variables
  \<open>'r\<close>, \<open>'t\<close>, \<open>'v\<close>, \<open>'y\<close>); what the view model reads from them is a field of the
  record \<open>host\<close> below, which stands for the game as one callback sees it.

  A \<open>Car\<close> is the game's entity of one vehicle. Only the properties the view model
  reads are kept; JavaScript numbers that hold whole quantities are \<open>int\<close>.
\<close>

record car =
  car_id :: int
  car_ride :: int
  car_rideObject :: int
  car_vehicleObject :: int
  car_numSeats :: int
  car_mass :: int
  car_poweredAcceleration :: int
  car_poweredMaxSpeed :: int
  car_trackProgress :: int
  car_x :: int
  car_y :: int
  car_z :: int
  car_body :: int
  car_trim :: int
  car_tertiary :: int
  car_status :: string

text \<open>A \<open>VehicleSpan\<close> is the pair \<open>[entity id, count]\<close>.\<close>

type_synonym vehicleSpan = "int \<times> int"

record ('r, 't, 'v, 'y) host =
  getAllRides :: "'r list"
  getAllRideTypes :: "'y list"
  rideId :: "'r \<Rightarrow> int"
  trainsOf :: "'r \<Rightarrow> 't list"
  vehiclesOf :: "'t \<Rightarrow> 'v list"
  trainAt :: "'t \<Rightarrow> nat \<Rightarrow> 'v"
  vehicleId :: "'v \<Rightarrow> int"
  carOf :: "'v \<Rightarrow> car"
  rideTypeId :: "'y \<Rightarrow> int"
  getTargets :: "nat \<Rightarrow> ('r \<times> nat) option \<Rightarrow> ('t \<times> nat) option
                   \<Rightarrow> ('v \<times> nat) option \<Rightarrow> vehicleSpan list"
  getSpacingToPrecedingVehicle :: "'t \<Rightarrow> car \<Rightarrow> nat \<Rightarrow> int option"
  refreshRide :: "'r \<Rightarrow> bool"
  refreshTrain :: "'t \<Rightarrow> bool"

section \<open>The view model of the selected vehicle\<close>

text \<open>
  Every store of \<open>VehicleViewModel\<close> is a field; the field \<open>vm_seats\<close> is the store
  \<open>_seats\<close>, and so on. A selection is the pair \<open>[entity, index]\<close> or null. The three
  derived stores \<open>_trains\<close>, \<open>_vehicles\<close> and \<open>_copyTargets\<close> are fields as well: a
  derived store keeps the value of its last computation until one of its sources
  notifies again. \<open>_isOpen\<close> starts undefined, which the code only tests for truth.
  The two subscription handles are \<open>None\<close> while undefined.
\<close>

record ('r, 't, 'v, 'y) vm =
  vm_selectedRide :: "('r \<times> nat) option"
  vm_selectedTrain :: "('t \<times> nat) option"
  vm_selectedVehicle :: "('v \<times> nat) option"
  vm_rideTypes :: "'y list"
  vm_rides :: "'r list"
  vm_trains :: "'t list"
  vm_vehicles :: "'v list"
  vm_type :: "('y \<times> nat) option"
  vm_variant :: int
  vm_seats :: int
  vm_mass :: int
  vm_poweredAcceleration :: int
  vm_poweredMaxSpeed :: int
  vm_trackProgress :: int
  vm_spacing :: "int option"
  vm_x :: int
  vm_y :: int
  vm_z :: int
  vm_primaryColour :: int
  vm_secondaryColour :: int
  vm_tertiaryColour :: int
  vm_isMoving :: bool
  vm_isPicking :: bool
  vm_multiplierIndex :: nat
  vm_copyFilters :: "32 word"
  vm_copyTargetOption :: nat
  vm_copyTargets :: "vehicleSpan list"
  vm_synchronizeTargets :: bool
  vm_isOpen :: bool
  vm_onPlayerAction :: "nat option"
  vm_onGameTick :: "nat option"

text \<open>The field initialisers of the class. \<open>_copyTargets\<close> is first computed from
  the initial option and the three null selections.\<close>

definition newVehicleViewModel :: "('r, 't, 'v, 'y) host \<Rightarrow> ('r, 't, 'v, 'y) vm" where
  "newVehicleViewModel h =
     \<lparr> vm_selectedRide = None, vm_selectedTrain = None, vm_selectedVehicle = None,
       vm_rideTypes = [], vm_rides = [], vm_trains = [], vm_vehicles = [],
       vm_type = None, vm_variant = 0, vm_seats = 0, vm_mass = 0,
       vm_poweredAcceleration = 0, vm_poweredMaxSpeed = 0, vm_trackProgress = 0,
       vm_spacing = Some 0, vm_x = 0, vm_y = 0, vm_z = 0,
       vm_primaryColour = 0, vm_secondaryColour = 0, vm_tertiaryColour = 0,
       vm_isMoving = False, vm_isPicking = False, vm_multiplierIndex = 0,
       vm_copyFilters = 0, vm_copyTargetOption = 0,
       vm_copyTargets = getTargets h 0 None None None,
       vm_synchronizeTargets = False, vm_isOpen = False,
       vm_onPlayerAction = None, vm_onGameTick = None \<rparr>"

text \<open>
  Derived stores whose value is a function of the stores they track. The derived
  stores \<open>_variants\<close> and \<open>_isUnpowered\<close> call methods of the wrapper objects and are
  read by the widgets only; they are left out, as is the store \<open>_clipboard\<close>, which
  nothing in the view model reads or writes.
\<close>

definition isEditDisabled :: "('r, 't, 'v, 'y) vm \<Rightarrow> bool" where
  "isEditDisabled m = (vm_selectedVehicle m = None)"

definition isPositionDisabled :: "('r, 't, 'v, 'y) vm \<Rightarrow> bool" where
  "isPositionDisabled m = (vm_isMoving m \<or> isEditDisabled m)"

definition multiplier :: "('r, 't, 'v, 'y) vm \<Rightarrow> nat" where
  "multiplier m = 10 ^ vm_multiplierIndex m"

text \<open>\<open>isMoving\<close>: the switch over the status names.\<close>

definition isMoving :: "string \<Rightarrow> bool" where
  "isMoving status =
     (status \<in> set [''arriving'', ''crashing'', ''departing'', ''moving_to_end_of_station'',
                     ''travelling_boat'', ''travelling_cable_lift'', ''travelling_dodgems'',
                     ''travelling''])"

text \<open>\<open>findIndex\<close> of the array helpers, as \<open>_updateVehicleInfo\<close> uses it: the index of
  the first element that satisfies the predicate, or null.\<close>

fun findIndex :: "'a list \<Rightarrow> ('a \<Rightarrow> bool) \<Rightarrow> nat option" where
  "findIndex [] p = None"
| "findIndex (a # as) p =
     (if p a then Some 0 else map_option Suc (findIndex as p))"

subsection \<open>Pulling the fields of a car\<close>

definition updateDynamicDataFromCar ::
  "('r, 't, 'v, 'y) host \<Rightarrow> ('r, 't, 'v, 'y) vm \<Rightarrow> car \<Rightarrow> nat \<Rightarrow> ('r, 't, 'v, 'y) vm" where
  "updateDynamicDataFromCar h m c index =
     (let m1 = m\<lparr> vm_variant := car_vehicleObject c, vm_mass := car_mass c,
                   vm_trackProgress := car_trackProgress c,
                   vm_x := car_x c, vm_y := car_y c, vm_z := car_z c \<rparr>
      in case vm_selectedTrain m1 of
           None \<Rightarrow> m1
         | Some train \<Rightarrow>
             m1\<lparr> vm_isMoving := isMoving (car_status (carOf h (trainAt h (fst train) 0))),
                 vm_spacing := getSpacingToPrecedingVehicle h (fst train) c index \<rparr>)"

definition updateVehicleInfo ::
  "('r, 't, 'v, 'y) host \<Rightarrow> ('r, 't, 'v, 'y) vm \<Rightarrow> 'v \<Rightarrow> nat \<Rightarrow> ('r, 't, 'v, 'y) vm" where
  "updateVehicleInfo h m vehicle index =
     (let c = carOf h vehicle;
          types = vm_rideTypes m;
          typeIdx = findIndex types (\<lambda>t. rideTypeId h t = car_rideObject c)
      in updateDynamicDataFromCar h
           (m\<lparr> vm_type := (case typeIdx of None \<Rightarrow> None | Some i \<Rightarrow> Some (types ! i, i)),
                vm_seats := car_numSeats c,
                vm_poweredAcceleration := car_poweredAcceleration c,
                vm_poweredMaxSpeed := car_poweredMaxSpeed c,
                vm_primaryColour := car_body c,
                vm_secondaryColour := car_trim c,
                vm_tertiaryColour := car_tertiary c \<rparr>)
           c index)"

definition onGameTickExecuted ::
  "('r, 't, 'v, 'y) host \<Rightarrow> ('r, 't, 'v, 'y) vm \<Rightarrow> ('r, 't, 'v, 'y) vm" where
  "onGameTickExecuted h m =
     (case vm_selectedVehicle m of
        Some vehicle \<Rightarrow> updateDynamicDataFromCar h m (carOf h (fst vehicle)) (snd vehicle)
      | None \<Rightarrow> m)"

text \<open>The callback the constructor pushes on \<open>refreshVehicle\<close>.\<close>

definition onRefreshVehicle ::
  "('r, 't, 'v, 'y) host \<Rightarrow> ('r, 't, 'v, 'y) vm \<Rightarrow> int \<Rightarrow> ('r, 't, 'v, 'y) vm" where
  "onRefreshVehicle h m ident =
     (if \<not> vm_isOpen m then m
      else case vm_selectedVehicle m of
             Some vehicle \<Rightarrow>
               if vehicleId h (fst vehicle) = ident
               then updateVehicleInfo h m (fst vehicle) (snd vehicle) else m
           | None \<Rightarrow> m)"

subsection \<open>Selections and the lists behind them\<close>

text \<open>
  \<open>updateSelectionOrNull\<close> reads the store of a selection and writes it. The store is
  passed as its reader and its writer over the state; the writer runs the store's
  subscribers.
\<close>

definition updateSelectionOrNull ::
  "('s \<Rightarrow> ('a \<times> nat) option) \<Rightarrow> ('s \<Rightarrow> ('a \<times> nat) option \<Rightarrow> 's) \<Rightarrow> 's \<Rightarrow> 'a list \<Rightarrow> 's" where
  "updateSelectionOrNull get put s items =
     (let selection =
            (if length items > 0
             then (let previous = get s;
                       selectedIdx = (case previous of
                                        Some p \<Rightarrow> if snd p < length items then snd p else 0
                                      | None \<Rightarrow> 0)
                   in Some (items ! selectedIdx, selectedIdx))
             else None)
      in put s selection)"

text \<open>
  Writing a store notifies its subscribers when the value differs from the old one.
  A selection pair and a list are fresh objects each time the code builds them, so
  they always differ; null does not differ from null.

  \<open>_selectedVehicle\<close>: its subscribers are \<open>_copyTargets\<close> (a field initialiser), then
  the constructor's callback, which pulls the vehicle when the window is open.
\<close>

definition set_selectedVehicle ::
  "('r, 't, 'v, 'y) host \<Rightarrow> ('r, 't, 'v, 'y) vm \<Rightarrow> ('v \<times> nat) option \<Rightarrow> ('r, 't, 'v, 'y) vm" where
  "set_selectedVehicle h m sel =
     (if sel = None \<and> vm_selectedVehicle m = None then m
      else (let m1 = m\<lparr> vm_selectedVehicle := sel \<rparr>;
                m2 = m1\<lparr> vm_copyTargets :=
                            getTargets h (vm_copyTargetOption m1) (vm_selectedRide m1)
                              (vm_selectedTrain m1) sel \<rparr>
            in case sel of
                 Some vehicle \<Rightarrow>
                   if vm_isOpen m2 then updateVehicleInfo h m2 (fst vehicle) (snd vehicle) else m2
               | None \<Rightarrow> m2))"

text \<open>\<open>_vehicles\<close> notifies \<open>v => updateSelectionOrNull(this._selectedVehicle, v)\<close>.\<close>

definition set_vehicles ::
  "('r, 't, 'v, 'y) host \<Rightarrow> ('r, 't, 'v, 'y) vm \<Rightarrow> 'v list \<Rightarrow> ('r, 't, 'v, 'y) vm" where
  "set_vehicles h m items =
     updateSelectionOrNull vm_selectedVehicle (set_selectedVehicle h)
       (m\<lparr> vm_vehicles := items \<rparr>) items"

text \<open>\<open>_selectedTrain\<close>: its subscriber is the derived store \<open>_vehicles\<close>.\<close>

definition set_selectedTrain ::
  "('r, 't, 'v, 'y) host \<Rightarrow> ('r, 't, 'v, 'y) vm \<Rightarrow> ('t \<times> nat) option \<Rightarrow> ('r, 't, 'v, 'y) vm" where
  "set_selectedTrain h m sel =
     (if sel = None \<and> vm_selectedTrain m = None then m
      else set_vehicles h (m\<lparr> vm_selectedTrain := sel \<rparr>)
             (case sel of Some t \<Rightarrow> vehiclesOf h (fst t) | None \<Rightarrow> []))"

definition set_trains ::
  "('r, 't, 'v, 'y) host \<Rightarrow> ('r, 't, 'v, 'y) vm \<Rightarrow> 't list \<Rightarrow> ('r, 't, 'v, 'y) vm" where
  "set_trains h m items =
     updateSelectionOrNull vm_selectedTrain (set_selectedTrain h)
       (m\<lparr> vm_trains := items \<rparr>) items"

text \<open>\<open>_selectedRide\<close>: its subscriber is the derived store \<open>_trains\<close>.\<close>

definition set_selectedRide ::
  "('r, 't, 'v, 'y) host \<Rightarrow> ('r, 't, 'v, 'y) vm \<Rightarrow> ('r \<times> nat) option \<Rightarrow> ('r, 't, 'v, 'y) vm" where
  "set_selectedRide h m sel =
     (if sel = None \<and> vm_selectedRide m = None then m
      else set_trains h (m\<lparr> vm_selectedRide := sel \<rparr>)
             (case sel of Some r \<Rightarrow> trainsOf h (fst r) | None \<Rightarrow> []))"

definition set_rides ::
  "('r, 't, 'v, 'y) host \<Rightarrow> ('r, 't, 'v, 'y) vm \<Rightarrow> 'r list \<Rightarrow> ('r, 't, 'v, 'y) vm" where
  "set_rides h m items =
     updateSelectionOrNull vm_selectedRide (set_selectedRide h)
       (m\<lparr> vm_rides := items \<rparr>) items"

text \<open>\<open>_copyTargetOption\<close>: a number; its subscriber is \<open>_copyTargets\<close>.\<close>

definition set_copyTargetOption ::
  "('r, 't, 'v, 'y) host \<Rightarrow> ('r, 't, 'v, 'y) vm \<Rightarrow> nat \<Rightarrow> ('r, 't, 'v, 'y) vm" where
  "set_copyTargetOption h m opt =
     (if opt = vm_copyTargetOption m then m
      else m\<lparr> vm_copyTargetOption := opt,
               vm_copyTargets := getTargets h opt (vm_selectedRide m) (vm_selectedTrain m)
                                   (vm_selectedVehicle m) \<rparr>)"

subsection \<open>Selecting the vehicle of a car\<close>

text \<open>\<open>_select\<close> walks the trains of the selected ride and the vehicles of each train
  and stops at the first vehicle whose id is the car's: \<open>findCar\<close> is that walk, giving
  the positions \<open>(t, v)\<close> at which it stops.\<close>

fun findCar :: "('r, 't, 'v, 'y) host \<Rightarrow> int \<Rightarrow> 't list \<Rightarrow> nat \<Rightarrow> (nat \<times> nat) option" where
  "findCar h carId [] t = None"
| "findCar h carId (train # rest) t =
     (case findIndex (vehiclesOf h train) (\<lambda>v. vehicleId h v = carId) of
        Some v \<Rightarrow> Some (t, v)
      | None \<Rightarrow> findCar h carId rest (Suc t))"

definition select ::
  "('r, 't, 'v, 'y) host \<Rightarrow> ('r, 't, 'v, 'y) vm \<Rightarrow> car \<Rightarrow> ('r, 't, 'v, 'y) vm" where
  "select h m c =
     (let rides = vm_rides m;
          carId = car_id c;
          rId = car_ride c
      in case findIndex rides (\<lambda>r. rideId h r = rId) of
           None \<Rightarrow> m
         | Some carRideIndex \<Rightarrow>
             (let m1 = set_selectedRide h m (Some (rides ! carRideIndex, carRideIndex));
                  trains = vm_trains m1
              in case findCar h carId trains 0 of
                   None \<Rightarrow> m1
                 | Some tv \<Rightarrow>
                     (let train = trains ! fst tv;
                          m2 = set_selectedTrain h m1 (Some (train, fst tv))
                      in set_selectedVehicle h m2
                           (Some (vehiclesOf h train ! snd tv, snd tv)))))"

subsection \<open>Editing\<close>

text \<open>
  \<open>_modifyVehicle\<close> writes no store. What it does is the list of its calls, in order:
  a call of the action it was given, with the spans and the value, or a line of the
  debug log.
\<close>

datatype 'a effect = ActionCall "vehicleSpan list" 'a | LogDebug

definition modifyVehicle ::
  "('r, 't, 'v, 'y) host \<Rightarrow> ('r, 't, 'v, 'y) vm \<Rightarrow> 'a \<Rightarrow> ('r, 't, 'v, 'y) vm \<times> 'a effect list" where
  "modifyVehicle h m val =
     (case vm_selectedVehicle m of
        Some vehicle \<Rightarrow>
          if vm_synchronizeTargets m
          then (m, [ActionCall (vm_copyTargets m) val])
          else (m, [ActionCall [(vehicleId h (fst vehicle), 1)] val])
      | None \<Rightarrow> (m, [LogDebug]))"

text \<open>\<open>_setFilter\<close>: the operators \<open>|\<close>, \<open>&\<close> and \<open>~\<close> of JavaScript work on 32-bit
  integers.\<close>

definition setFilter ::
  "('r, 't, 'v, 'y) vm \<Rightarrow> 32 word \<Rightarrow> bool \<Rightarrow> ('r, 't, 'v, 'y) vm" where
  "setFilter m flt toggle =
     (let enabledFilters = vm_copyFilters m
      in m\<lparr> vm_copyFilters :=
               (if toggle then enabledFilters OR flt else enabledFilters AND NOT flt) \<rparr>)"

subsection \<open>Opening and closing\<close>

text \<open>
  The game's \<open>context.subscribe(hook, callback)\<close> registers a callback and returns a
  handle whose \<open>dispose()\<close> removes it. The registry of the game is the list of the
  live subscriptions, each with its handle and its hook name, and the next free
  handle.
\<close>

record registry =
  subs :: "(nat \<times> string) list"
  nextHandle :: nat

definition subscribe :: "registry \<Rightarrow> string \<Rightarrow> nat \<times> registry" where
  "subscribe k hook =
     (nextHandle k, k\<lparr> subs := subs k @ [(nextHandle k, hook)],
                       nextHandle := Suc (nextHandle k) \<rparr>)"

definition dispose :: "registry \<Rightarrow> nat \<Rightarrow> registry" where
  "dispose k handle = k\<lparr> subs := filter (\<lambda>s. fst s \<noteq> handle) (subs k) \<rparr>"

text \<open>\<open>x ||= e\<close> evaluates and assigns \<open>e\<close> only when \<open>x\<close> is undefined.\<close>

definition openViewModel ::
  "('r, 't, 'v, 'y) host \<Rightarrow> ('r, 't, 'v, 'y) vm \<times> registry \<Rightarrow> ('r, 't, 'v, 'y) vm \<times> registry" where
  "openViewModel h w =
     (let m = fst w; k = snd w;
          m1 = m\<lparr> vm_isOpen := True \<rparr>;
          m2 = m1\<lparr> vm_rideTypes := getAllRideTypes h \<rparr>;
          m3 = set_rides h m2 (getAllRides h);
          w4 = (case vm_onPlayerAction m3 of
                  Some _ \<Rightarrow> (m3, k)
                | None \<Rightarrow> (let r = subscribe k ''action.execute''
                           in (m3\<lparr> vm_onPlayerAction := Some (fst r) \<rparr>, snd r)));
          w5 = (case vm_onGameTick (fst w4) of
                  Some _ \<Rightarrow> w4
                | None \<Rightarrow> (let r = subscribe (snd w4) ''interval.tick''
                           in ((fst w4)\<lparr> vm_onGameTick := Some (fst r) \<rparr>, snd r)))
      in w5)"

definition closeViewModel ::
  "('r, 't, 'v, 'y) vm \<times> registry \<Rightarrow> ('r, 't, 'v, 'y) vm \<times> registry" where
  "closeViewModel w =
     (let m = fst w; k = snd w;
          m1 = m\<lparr> vm_isOpen := False \<rparr>;
          k1 = (case vm_onPlayerAction m1 of Some d \<Rightarrow> dispose k d | None \<Rightarrow> k);
          k2 = (case vm_onGameTick m1 of Some d \<Rightarrow> dispose k1 d | None \<Rightarrow> k1);
          m2 = m1\<lparr> vm_onPlayerAction := None, vm_onGameTick := None \<rparr>;
          m3 = m2\<lparr> vm_multiplierIndex := 0, vm_synchronizeTargets := False \<rparr>
      in (m3, k2))"

subsection \<open>Executed player actions\<close>

text \<open>
  The arguments of an executed action, as far as \<open>_onPlayerActionExecuted\<close> reads them:
  whether the action is client only, its name, and the ride in its arguments. The
  methods \<open>_refresh\<close> of a ride and of a train say whether it still exists. The debug
  lines are left out.
\<close>

record gameAction =
  ga_isClientOnly :: bool
  ga_action :: string
  ga_ride :: int

definition onPlayerActionExecuted ::
  "('r, 't, 'v, 'y) host \<Rightarrow> ('r, 't, 'v, 'y) vm \<Rightarrow> gameAction \<Rightarrow> ('r, 't, 'v, 'y) vm" where
  "onPlayerActionExecuted h m ev =
     (if ga_isClientOnly ev then m
      else if ga_action ev \<in> set [''ridecreate'', ''ridedemolish'', ''ridesetname'']
      then set_rides h m (getAllRides h)
      else if ga_action ev = ''ridesetstatus''
      then (case find (\<lambda>r. rideId h r = ga_ride ev) (vm_rides m) of
              None \<Rightarrow> m
            | Some ride \<Rightarrow>
                (let rideExists = refreshRide h ride
                 in case vm_selectedRide m of
                      None \<Rightarrow> m
                    | Some selectedRide \<Rightarrow>
                        if rideId h (fst selectedRide) = ga_ride ev
                        then (case vm_selectedTrain m of
                                None \<Rightarrow>
                                  if rideExists then set_trains h m (trainsOf h ride)
                                  else set_trains h m []
                              | Some selectedTrain \<Rightarrow>
                                  if \<not> rideExists \<or> \<not> refreshTrain h (fst selectedTrain)
                                  then set_trains h m []
                                  else m)
                        else m))
      else m)"

subsection \<open>The view model as a state machine\<close>

text \<open>
  What can happen to the view model, one event at a time: the window opens or
  closes; a player action is executed; the user picks a position of the vehicle
  list, a copy option, the synchronize toggle, a filter or a multiplier; the user
  changes the spinner of the track progress; a car is picked on the map; a game
  tick; a refresh of a vehicle. The vehicle dropdown
  reports positions of its items only, hence the bound in \<open>PickVehicle\<close>. Each event
  comes with the game as its callback sees it. The side window also calls
  \<open>_selectRide\<close> and \<open>_selectTrain\<close>, which the view model at hand does not define.

  The spinner of the track progress is bound to the store \<open>_trackProgress\<close> both ways
  (\<open>value: twoway(model._trackProgress)\<close>): when the user changes the spinner, the
  widget writes its new value to the store, which has no subscriber in the view
  model. The spinner is disabled while \<open>_isEditDisabled\<close>; the event is not restricted to
  the states in which it is enabled, so that what holds of every event holds of the
  spinner whatever a disabled widget does.

  The game calls the handler of a hook only through a live subscription: a tick or
  an executed action reaches the view model when the handle it holds is live.
\<close>

definition fires :: "registry \<Rightarrow> nat option \<Rightarrow> string \<Rightarrow> bool" where
  "fires k d hook = (case d of None \<Rightarrow> False | Some x \<Rightarrow> (x, hook) \<in> set (subs k))"

datatype event =
    Open
  | Close
  | PlayerAction gameAction
  | PickVehicle nat
  | SelectCar car
  | SetCopyTargetOption nat
  | SetSynchronize bool
  | SetFilter "32 word" bool
  | SetMultiplierIndex nat
  | SetTrackProgress int
  | Tick
  | Refresh int

fun step ::
  "('r, 't, 'v, 'y) host \<Rightarrow> ('r, 't, 'v, 'y) vm \<times> registry \<Rightarrow> event
     \<Rightarrow> ('r, 't, 'v, 'y) vm \<times> registry" where
  "step h w Open = openViewModel h w"
| "step h w Close = closeViewModel w"
| "step h w (PlayerAction ev) =
     (if fires (snd w) (vm_onPlayerAction (fst w)) ''action.execute''
      then (onPlayerActionExecuted h (fst w) ev, snd w)
      else w)"
| "step h w (PickVehicle idx) =
     (if idx < length (vm_vehicles (fst w))
      then (set_selectedVehicle h (fst w) (Some (vm_vehicles (fst w) ! idx, idx)), snd w)
      else w)"
| "step h w (SelectCar c) = (select h (fst w) c, snd w)"
| "step h w (SetCopyTargetOption opt) = (set_copyTargetOption h (fst w) opt, snd w)"
| "step h w (SetSynchronize b) = ((fst w)\<lparr> vm_synchronizeTargets := b \<rparr>, snd w)"
| "step h w (SetFilter flt toggle) = (setFilter (fst w) flt toggle, snd w)"
| "step h w (SetMultiplierIndex i) = ((fst w)\<lparr> vm_multiplierIndex := i \<rparr>, snd w)"
| "step h w (SetTrackProgress v) = ((fst w)\<lparr> vm_trackProgress := v \<rparr>, snd w)"
| "step h w Tick =
     (if fires (snd w) (vm_onGameTick (fst w)) ''interval.tick''
      then (onGameTickExecuted h (fst w), snd w)
      else w)"
| "step h w (Refresh ident) = (onRefreshVehicle h (fst w) ident, snd w)"

fun run ::
  "('r, 't, 'v, 'y) vm \<times> registry \<Rightarrow> (('r, 't, 'v, 'y) host \<times> event) list
     \<Rightarrow> ('r, 't, 'v, 'y) vm \<times> registry" where
  "run w [] = w"
| "run w (x # xs) = run (step (fst x) w (snd x)) xs"

definition emptyRegistry :: registry where
  "emptyRegistry = \<lparr> subs = [], nextHandle = 0 \<rparr>"

text \<open>The number of live subscriptions to a hook.\<close>

definition live :: "registry \<Rightarrow> string \<Rightarrow> nat" where
  "live k hook = length (filter (\<lambda>s. snd s = hook) (subs k))"

section \<open>The spacing control of the side window\<close>

text \<open>\<open>toString\<close> of a whole number, in decimal.\<close>

definition digit :: "nat \<Rightarrow> char" where
  "digit d = ''0123456789'' ! d"

function showNat :: "nat \<Rightarrow> string" where
  "showNat n = (if n < 10 then [digit n] else showNat (n div 10) @ [digit (n mod 10)])"
  by pat_completeness auto
termination
  by (relation "measure id") auto

declare showNat.simps [simp del]

definition toString :: "int \<Rightarrow> string" where
  "toString i = (if i < 0 then CHR ''-'' # showNat (nat (- i)) else showNat (nat i))"


definition spacingValue :: "('r, 't, 'v, 'y) vm \<Rightarrow> int" where
  "spacingValue m = (case vm_spacing m of None \<Rightarrow> 0 | Some v \<Rightarrow> v)"

section \<open>The spinner component\<close>

text \<open>
  \<open>SpinnerComponent\<close> with the fields of its base class that it reads
  (\<open>_isActive\<close>) and the two properties of its widget that it writes. The component
  is bound to its window, so that \<open>getWidget\<close> finds the widget. The helpers \<open>wrap\<close>
  and \<open>clamp\<close> are imported from a module that is not part of the sources at hand;
  they are arguments of the model.
\<close>

datatype wrapMode = Wrap | Clamp

record spinner =
  sp_wrapMode :: wrapMode
  sp_minimum :: int
  sp_maximum :: int
  sp_increment :: int
  sp_disabledMessage :: string
  sp_format :: "(int \<Rightarrow> string) option"
  sp_value :: int
  sp_isActive :: bool
  sp_text :: string
  sp_isDisabled :: bool

record helpers =
  wrap :: "int \<Rightarrow> int \<Rightarrow> int \<Rightarrow> int"
  clamp :: "int \<Rightarrow> int \<Rightarrow> int \<Rightarrow> int"

definition performWrapMode :: "helpers \<Rightarrow> spinner \<Rightarrow> int \<Rightarrow> int" where
  "performWrapMode hp s v =
     (case sp_wrapMode s of
        Wrap \<Rightarrow> wrap hp v (sp_minimum s) (sp_maximum s - 1)
      | Clamp \<Rightarrow> clamp hp v (sp_minimum s) (sp_maximum s - 1))"

definition refreshWidget :: "spinner \<Rightarrow> spinner" where
  "refreshWidget s =
     (if sp_isActive s \<and> sp_minimum s < sp_maximum s
      then s\<lparr> sp_text := (case sp_format s of Some f \<Rightarrow> f (sp_value s)
                                             | None \<Rightarrow> toString (sp_value s)),
               sp_isDisabled := (sp_minimum s \<ge> sp_maximum s - 1) \<rparr>
      else s\<lparr> sp_text := sp_disabledMessage s, sp_isDisabled := True \<rparr>)"

definition set_spinner :: "helpers \<Rightarrow> spinner \<Rightarrow> int \<Rightarrow> spinner" where
  "set_spinner hp s v =
     (if sp_minimum s \<ge> sp_maximum s then s
      else if v = sp_value s \<and> sp_isActive s then s
      else refreshWidget (s\<lparr> sp_isActive := True, sp_value := performWrapMode hp s v \<rparr>))"

text \<open>A helper keeps within its bounds when, given a lower bound not above the upper
  one, it returns a value between them.\<close>

definition keepsWithin :: "(int \<Rightarrow> int \<Rightarrow> int \<Rightarrow> int) \<Rightarrow> bool" where
  "keepsWithin f = (\<forall>v lo hi. lo \<le> hi \<longrightarrow> lo \<le> f v lo hi \<and> f v lo hi \<le> hi)"

text \<open>
  Modelled from the spec: the helpers \<open>wrap\<close> and \<open>clamp\<close> of the utility module, which
  the spec only names ("wrap/clamp arithmetic"). \<open>clampRange\<close> moves a value outside
  the bounds to the nearer bound; \<open>wrapRange\<close> carries it around the range.
\<close>

definition clampRange :: "int \<Rightarrow> int \<Rightarrow> int \<Rightarrow> int" where
  "clampRange v lo hi = (if v < lo then lo else if v > hi then hi else v)"

definition wrapRange :: "int \<Rightarrow> int \<Rightarrow> int \<Rightarrow> int" where
  "wrapRange v lo hi = lo + (v - lo) mod (hi - lo + 1)"

definition rangeHelpers :: helpers where
  "rangeHelpers = \<lparr> wrap = wrapRange, clamp = clampRange \<rparr>"

section \<open>The clipboard of the editor window\<close>

text \<open>
  The module of the editor window holds one variable, \<open>copiedVehicleSettings\<close>. The
  window, while it is open, has the copy button (pressed or not) and the paste
  button (disabled or not); \<open>getWidget\<close> throws when the window is not there. The
  optional handler \<open>onCopyVehicle\<close> is \<open>None\<close> when unset and otherwise the settings
  (or null) it returns for this click; \<open>onPasteVehicle\<close> is set or not.
\<close>

record buttons =
  copyPressed :: bool
  pasteDisabled :: bool

record 's editor =
  copiedVehicleSettings :: "'s option"
  window :: "buttons option"

definition initialEditor :: "'s editor" where
  "initialEditor = \<lparr> copiedVehicleSettings = None, window = None \<rparr>"

text \<open>\<open>createWindow\<close>, for the two buttons.\<close>

definition createWindow :: "'s editor \<Rightarrow> 's editor" where
  "createWindow e =
     e\<lparr> window := Some \<lparr> copyPressed = (copiedVehicleSettings e \<noteq> None),
                          pasteDisabled = (copiedVehicleSettings e = None) \<rparr> \<rparr>"

definition closeWindow :: "'s editor \<Rightarrow> 's editor" where
  "closeWindow e = e\<lparr> window := None \<rparr>"

datatype thrown = CannotFindWidget string

definition onClickCopy :: "'s option option \<Rightarrow> 's editor \<Rightarrow> thrown + 's editor" where
  "onClickCopy onCopyVehicle e =
     (case window e of
        None \<Rightarrow> Inl (CannotFindWidget ''rve-copy-button'')
      | Some b \<Rightarrow>
          (let e1 = (if copyPressed b
                     then e\<lparr> window := Some (b\<lparr> copyPressed := False \<rparr>),
                             copiedVehicleSettings := None \<rparr>
                     else case onCopyVehicle of
                            Some r \<Rightarrow>
                              (if r \<noteq> None
                               then e\<lparr> copiedVehicleSettings := r,
                                       window := Some (b\<lparr> copyPressed := True \<rparr>) \<rparr>
                               else e\<lparr> copiedVehicleSettings := r \<rparr>)
                          | None \<Rightarrow> e)
           in case window e1 of
                None \<Rightarrow> Inl (CannotFindWidget ''rve-paste-button'')
              | Some b1 \<Rightarrow> Inr (e1\<lparr> window := Some (b1\<lparr> pasteDisabled := \<not> copyPressed b1 \<rparr>) \<rparr>)))"

text \<open>The click on the paste button: what it calls, and the state it leaves.\<close>

datatype 's pasteEffect = PasteLog 's | PasteVehicle 's

definition onClickPaste :: "bool \<Rightarrow> 's editor \<Rightarrow> 's editor \<times> 's pasteEffect list" where
  "onClickPaste onPasteVehicle e =
     (case copiedVehicleSettings e of
        Some settings \<Rightarrow>
          if onPasteVehicle then (e, [PasteLog settings, PasteVehicle settings]) else (e, [])
      | None \<Rightarrow> (e, []))"

text \<open>Clicks on the copy button, one after the other, each with what the handler
  returns; a click that throws stops the run.\<close>

fun clicks :: "'s option option list \<Rightarrow> 's editor \<Rightarrow> thrown + 's editor" where
  "clicks [] e = Inr e"
| "clicks (c # cs) e = (case onClickCopy c e of Inl t \<Rightarrow> Inl t | Inr e1 \<Rightarrow> clicks cs e1)"

section \<open>Properties to be shown\<close>

text \<open>
  The rule of the spec for a selection when its list is replaced: null for an empty
  list; the same index, with the item the new list has there, when the index still
  fits; index 0 otherwise.
\<close>

definition selectionRule :: "('a \<times> nat) option \<Rightarrow> 'a list \<Rightarrow> ('a \<times> nat) option" where
  "selectionRule prev items =
     (if items = [] then None
      else case prev of
             None \<Rightarrow> Some (items ! 0, 0)
           | Some (e, i) \<Rightarrow> if i < length items then Some (items ! i, i) else Some (items ! 0, 0))"






text \<open>The fields that mirror the selected vehicle, and those of them that
  \<open>_updateVehicleInfo\<close> alone writes.\<close>

definition mirrored ::
  "('r, 't, 'v, 'y) vm \<Rightarrow>
     (('y \<times> nat) option \<times> int \<times> int \<times> int \<times> int \<times> int \<times> int \<times> int option
        \<times> int \<times> int \<times> int \<times> int \<times> int \<times> int)" where
  "mirrored m =
     (vm_type m, vm_variant m, vm_seats m, vm_mass m, vm_poweredAcceleration m,
      vm_poweredMaxSpeed m, vm_trackProgress m, vm_spacing m, vm_x m, vm_y m, vm_z m,
      vm_primaryColour m, vm_secondaryColour m, vm_tertiaryColour m)"

definition identityFields ::
  "('r, 't, 'v, 'y) vm \<Rightarrow> (('y \<times> nat) option \<times> int \<times> int \<times> int \<times> int \<times> int \<times> int)" where
  "identityFields m =
     (vm_type m, vm_seats m, vm_poweredAcceleration m, vm_poweredMaxSpeed m,
      vm_primaryColour m, vm_secondaryColour m, vm_tertiaryColour m)"



text \<open>The registry is well formed when no handle is live twice and every live handle
  was given out. A handle the view model holds counts as one.\<close>

definition wellFormed :: "registry \<Rightarrow> bool" where
  "wellFormed k =
     (distinct (map fst (subs k)) \<and> (\<forall>s \<in> set (subs k). fst s < nextHandle k))"

definition held :: "nat option \<Rightarrow> nat" where
  "held d = (case d of None \<Rightarrow> 0 | Some _ \<Rightarrow> 1)"

definition registered :: "registry \<Rightarrow> nat option \<Rightarrow> string \<Rightarrow> bool" where
  "registered k d hook = (case d of None \<Rightarrow> True | Some x \<Rightarrow> (x, hook) \<in> set (subs k))"

definition subscribed :: "nat \<Rightarrow> nat \<Rightarrow> ('r, 't, 'v, 'y) vm \<times> registry \<Rightarrow> bool" where
  "subscribed a t w =
     (wellFormed (snd w) \<and>
      registered (snd w) (vm_onPlayerAction (fst w)) ''action.execute'' \<and>
      registered (snd w) (vm_onGameTick (fst w)) ''interval.tick'' \<and>
      live (snd w) ''action.execute'' = a + held (vm_onPlayerAction (fst w)) \<and>
      live (snd w) ''interval.tick'' = t + held (vm_onGameTick (fst w)))"

text \<open>The spinner's value is within the bounds of the spinner.\<close>

definition withinBounds :: "spinner \<Rightarrow> bool" where
  "withinBounds s = (sp_minimum s \<le> sp_value s \<and> sp_value s \<le> sp_maximum s - 1)"

text \<open>
  Modelled from the spec: \<open>getSpacingToPrecedingVehicle\<close> of the spacing service, which
  is not part of the sources at hand. The spacing is taken to the vehicle just before
  this one in the same train. It is null when there is no vehicle before this one, and
  when the position of that vehicle cannot be resolved: \<open>distanceTo train c j\<close> is the
  distance from the car \<open>c\<close> to the vehicle at position \<open>j\<close> of the train, or null.
\<close>

definition spacingToPreceding ::
  "('t \<Rightarrow> car \<Rightarrow> nat \<Rightarrow> int option) \<Rightarrow> 't \<Rightarrow> car \<Rightarrow> nat \<Rightarrow> int option" where
  "spacingToPreceding distanceTo train c index =
     (if index = 0 then None else distanceTo train c (index - 1))"

section \<open>A small park\<close>

text \<open>
  One ride with the trains 10 and 11; train \<open>t\<close> has the vehicles \<open>10 * t\<close> and
  \<open>10 * t + 1\<close>. Every car has the given number of seats. The second vehicle of a train
  is 9 behind the first.
\<close>

definition exampleCar :: "int \<Rightarrow> nat \<Rightarrow> car" where
  "exampleCar seats v =
     \<lparr> car_id = int v, car_ride = 1, car_rideObject = 3, car_vehicleObject = 2,
       car_numSeats = seats, car_mass = 500, car_poweredAcceleration = 10,
       car_poweredMaxSpeed = 20, car_trackProgress = 7,
       car_x = 100, car_y = 200, car_z = 16,
       car_body = 1, car_trim = 2, car_tertiary = 3, car_status = ''travelling'' \<rparr>"

definition exampleHost :: "int \<Rightarrow> (nat, nat, nat, nat) host" where
  "exampleHost seats =
     \<lparr> getAllRides = [1], getAllRideTypes = [3], rideId = int,
       trainsOf = (\<lambda>r. [10, 11]),
       vehiclesOf = (\<lambda>t. [10 * t, 10 * t + 1]),
       trainAt = (\<lambda>t i. 10 * t + i),
       vehicleId = int, carOf = exampleCar seats, rideTypeId = int,
       getTargets = (\<lambda>opt r t v. case v of None \<Rightarrow> []
                                  | Some x \<Rightarrow> [(int (fst x), 1), (int (fst x) + 1, 1)]),
       getSpacingToPrecedingVehicle = spacingToPreceding (\<lambda>t c j. Some 9),
       refreshRide = (\<lambda>r. True), refreshTrain = (\<lambda>t. True) \<rparr>"

definition exampleOpened :: "(nat, nat, nat, nat) vm \<times> registry" where
  "exampleOpened = openViewModel (exampleHost 4) (newVehicleViewModel (exampleHost 4), emptyRegistry)"






definition exampleSpinner :: spinner where
  "exampleSpinner =
     \<lparr> sp_wrapMode = Wrap, sp_minimum = 0, sp_maximum = 10, sp_increment = 1,
       sp_disabledMessage = ''Not available'', sp_format = None, sp_value = 0,
       sp_isActive = False, sp_text = [], sp_isDisabled = False \<rparr>"

text \<open>The spinner after it was set to 5 and its maximum was lowered to 3.\<close>

definition staleSpinner :: spinner where
  "staleSpinner =
     \<lparr> sp_wrapMode = Wrap, sp_minimum = 0, sp_maximum = 3, sp_increment = 1,
       sp_disabledMessage = ''Not available'', sp_format = None, sp_value = 5,
       sp_isActive = True, sp_text = ''5'', sp_isDisabled = False \<rparr>"

section \<open>What the pulls and the store writes leave alone\<close>

lemma findIndex_less: "findIndex xs p = Some i \<Longrightarrow> i < length xs"
  by (induction xs arbitrary: i) (auto split: if_splits)

lemma updateSelectionOrNull_put:
  "updateSelectionOrNull get put s items = put s (selectionRule (get s) items)"
  by (cases "get s")
     (auto simp: updateSelectionOrNull_def selectionRule_def Let_def split: prod.split)


lemma updateDynamicDataFromCar_frame [simp]:
  "vm_selectedRide (updateDynamicDataFromCar h m c i) = vm_selectedRide m"
  "vm_selectedTrain (updateDynamicDataFromCar h m c i) = vm_selectedTrain m"
  "vm_selectedVehicle (updateDynamicDataFromCar h m c i) = vm_selectedVehicle m"
  "vm_rides (updateDynamicDataFromCar h m c i) = vm_rides m"
  "vm_trains (updateDynamicDataFromCar h m c i) = vm_trains m"
  "vm_vehicles (updateDynamicDataFromCar h m c i) = vm_vehicles m"
  "vm_copyTargetOption (updateDynamicDataFromCar h m c i) = vm_copyTargetOption m"
  "vm_copyTargets (updateDynamicDataFromCar h m c i) = vm_copyTargets m"
  "vm_synchronizeTargets (updateDynamicDataFromCar h m c i) = vm_synchronizeTargets m"
  "vm_isOpen (updateDynamicDataFromCar h m c i) = vm_isOpen m"
  "vm_onPlayerAction (updateDynamicDataFromCar h m c i) = vm_onPlayerAction m"
  "vm_onGameTick (updateDynamicDataFromCar h m c i) = vm_onGameTick m"
  by (simp_all add: updateDynamicDataFromCar_def Let_def split: option.split)

lemma updateVehicleInfo_frame [simp]:
  "vm_selectedRide (updateVehicleInfo h m v i) = vm_selectedRide m"
  "vm_selectedTrain (updateVehicleInfo h m v i) = vm_selectedTrain m"
  "vm_selectedVehicle (updateVehicleInfo h m v i) = vm_selectedVehicle m"
  "vm_rides (updateVehicleInfo h m v i) = vm_rides m"
  "vm_trains (updateVehicleInfo h m v i) = vm_trains m"
  "vm_vehicles (updateVehicleInfo h m v i) = vm_vehicles m"
  "vm_copyTargetOption (updateVehicleInfo h m v i) = vm_copyTargetOption m"
  "vm_copyTargets (updateVehicleInfo h m v i) = vm_copyTargets m"
  "vm_synchronizeTargets (updateVehicleInfo h m v i) = vm_synchronizeTargets m"
  "vm_isOpen (updateVehicleInfo h m v i) = vm_isOpen m"
  "vm_onPlayerAction (updateVehicleInfo h m v i) = vm_onPlayerAction m"
  "vm_onGameTick (updateVehicleInfo h m v i) = vm_onGameTick m"
  by (simp_all add: updateVehicleInfo_def Let_def)

lemma set_selectedVehicle_frame [simp]:
  "vm_selectedRide (set_selectedVehicle h m sel) = vm_selectedRide m"
  "vm_selectedTrain (set_selectedVehicle h m sel) = vm_selectedTrain m"
  "vm_selectedVehicle (set_selectedVehicle h m sel) = sel"
  "vm_rides (set_selectedVehicle h m sel) = vm_rides m"
  "vm_trains (set_selectedVehicle h m sel) = vm_trains m"
  "vm_vehicles (set_selectedVehicle h m sel) = vm_vehicles m"
  "vm_copyTargetOption (set_selectedVehicle h m sel) = vm_copyTargetOption m"
  "vm_synchronizeTargets (set_selectedVehicle h m sel) = vm_synchronizeTargets m"
  "vm_isOpen (set_selectedVehicle h m sel) = vm_isOpen m"
  "vm_onPlayerAction (set_selectedVehicle h m sel) = vm_onPlayerAction m"
  "vm_onGameTick (set_selectedVehicle h m sel) = vm_onGameTick m"
  by (auto simp: set_selectedVehicle_def Let_def split: option.split)


lemma set_vehicles_frame [simp]:
  "vm_selectedRide (set_vehicles h m items) = vm_selectedRide m"
  "vm_selectedTrain (set_vehicles h m items) = vm_selectedTrain m"
  "vm_selectedVehicle (set_vehicles h m items) = selectionRule (vm_selectedVehicle m) items"
  "vm_rides (set_vehicles h m items) = vm_rides m"
  "vm_trains (set_vehicles h m items) = vm_trains m"
  "vm_vehicles (set_vehicles h m items) = items"
  "vm_copyTargetOption (set_vehicles h m items) = vm_copyTargetOption m"
  "vm_synchronizeTargets (set_vehicles h m items) = vm_synchronizeTargets m"
  "vm_isOpen (set_vehicles h m items) = vm_isOpen m"
  "vm_onPlayerAction (set_vehicles h m items) = vm_onPlayerAction m"
  "vm_onGameTick (set_vehicles h m items) = vm_onGameTick m"
  by (simp_all add: set_vehicles_def updateSelectionOrNull_put)

lemma set_selectedTrain_frame [simp]:
  "vm_selectedRide (set_selectedTrain h m sel) = vm_selectedRide m"
  "vm_selectedTrain (set_selectedTrain h m sel) = sel"
  "vm_rides (set_selectedTrain h m sel) = vm_rides m"
  "vm_trains (set_selectedTrain h m sel) = vm_trains m"
  "vm_copyTargetOption (set_selectedTrain h m sel) = vm_copyTargetOption m"
  "vm_synchronizeTargets (set_selectedTrain h m sel) = vm_synchronizeTargets m"
  "vm_isOpen (set_selectedTrain h m sel) = vm_isOpen m"
  "vm_onPlayerAction (set_selectedTrain h m sel) = vm_onPlayerAction m"
  "vm_onGameTick (set_selectedTrain h m sel) = vm_onGameTick m"
  by (auto simp: set_selectedTrain_def)

lemma set_trains_frame [simp]:
  "vm_selectedRide (set_trains h m items) = vm_selectedRide m"
  "vm_selectedTrain (set_trains h m items) = selectionRule (vm_selectedTrain m) items"
  "vm_rides (set_trains h m items) = vm_rides m"
  "vm_trains (set_trains h m items) = items"
  "vm_copyTargetOption (set_trains h m items) = vm_copyTargetOption m"
  "vm_synchronizeTargets (set_trains h m items) = vm_synchronizeTargets m"
  "vm_isOpen (set_trains h m items) = vm_isOpen m"
  "vm_onPlayerAction (set_trains h m items) = vm_onPlayerAction m"
  "vm_onGameTick (set_trains h m items) = vm_onGameTick m"
  by (simp_all add: set_trains_def updateSelectionOrNull_put)

lemma set_selectedRide_frame [simp]:
  "vm_selectedRide (set_selectedRide h m sel) = sel"
  "vm_rides (set_selectedRide h m sel) = vm_rides m"
  "vm_copyTargetOption (set_selectedRide h m sel) = vm_copyTargetOption m"
  "vm_synchronizeTargets (set_selectedRide h m sel) = vm_synchronizeTargets m"
  "vm_isOpen (set_selectedRide h m sel) = vm_isOpen m"
  "vm_onPlayerAction (set_selectedRide h m sel) = vm_onPlayerAction m"
  "vm_onGameTick (set_selectedRide h m sel) = vm_onGameTick m"
  by (auto simp: set_selectedRide_def)

lemma set_rides_frame [simp]:
  "vm_selectedRide (set_rides h m items) = selectionRule (vm_selectedRide m) items"
  "vm_rides (set_rides h m items) = items"
  "vm_copyTargetOption (set_rides h m items) = vm_copyTargetOption m"
  "vm_synchronizeTargets (set_rides h m items) = vm_synchronizeTargets m"
  "vm_isOpen (set_rides h m items) = vm_isOpen m"
  "vm_onPlayerAction (set_rides h m items) = vm_onPlayerAction m"
  "vm_onGameTick (set_rides h m items) = vm_onGameTick m"
  by (simp_all add: set_rides_def updateSelectionOrNull_put)

lemma select_frame [simp]:
  "vm_onPlayerAction (select h m c) = vm_onPlayerAction m"
  "vm_onGameTick (select h m c) = vm_onGameTick m"
  "vm_isOpen (select h m c) = vm_isOpen m"
  "vm_synchronizeTargets (select h m c) = vm_synchronizeTargets m"
  by (simp_all add: select_def Let_def split: option.split)

lemma onPlayerActionExecuted_frame [simp]:
  "vm_onPlayerAction (onPlayerActionExecuted h m ev) = vm_onPlayerAction m"
  "vm_onGameTick (onPlayerActionExecuted h m ev) = vm_onGameTick m"
  "vm_isOpen (onPlayerActionExecuted h m ev) = vm_isOpen m"
  "vm_synchronizeTargets (onPlayerActionExecuted h m ev) = vm_synchronizeTargets m"
  by (simp_all add: onPlayerActionExecuted_def Let_def split: option.split)

section \<open>The view model stays settled\<close>

























section \<open>The small park, opened\<close>

lemmas cascade_defs =
  openViewModel_def set_rides_def updateSelectionOrNull_def
  set_selectedRide_def set_trains_def set_selectedTrain_def set_vehicles_def
  set_selectedVehicle_def updateVehicleInfo_def updateDynamicDataFromCar_def
  newVehicleViewModel_def subscribe_def emptyRegistry_def spacingToPreceding_def
  isMoving_def

lemma exampleOpened_eq:
  "exampleOpened =
     (\<lparr> vm_selectedRide = Some (1, 0), vm_selectedTrain = Some (10, 0),
        vm_selectedVehicle = Some (100, 0), vm_rideTypes = [3], vm_rides = [1],
        vm_trains = [10, 11], vm_vehicles = [100, 101], vm_type = Some (3, 0),
        vm_variant = 2, vm_seats = 4, vm_mass = 500,
        vm_poweredAcceleration = 10, vm_poweredMaxSpeed = 20,
        vm_trackProgress = 7, vm_spacing = None, vm_x = 100, vm_y = 200,
        vm_z = 16, vm_primaryColour = 1, vm_secondaryColour = 2,
        vm_tertiaryColour = 3, vm_isMoving = True, vm_isPicking = False,
        vm_multiplierIndex = 0, vm_copyFilters = 0, vm_copyTargetOption = 0,
        vm_copyTargets = [(100, 1), (101, 1)], vm_synchronizeTargets = False,
        vm_isOpen = True, vm_onPlayerAction = Some 0, vm_onGameTick = Some 1 \<rparr>,
      \<lparr> subs = [(0, ''action.execute''), (1, ''interval.tick'')], nextHandle = 2 \<rparr>)"
  by (simp add: exampleOpened_def cascade_defs Let_def exampleHost_def exampleCar_def)

lemma exampleOpened_run:
  "run (newVehicleViewModel (exampleHost 4), emptyRegistry) [(exampleHost 4, Open)] = exampleOpened"
  by (simp add: exampleOpened_def)

section \<open>Selections follow their lists\<close>

text \<open>
  Claim C1. Whenever the list of rides, of trains or of vehicles is replaced, the
  selection over it follows the rule of the spec: it becomes null when the new list
  is empty; it keeps its index, with the item the new list has at that index, when
  the index is less than the length of the new list; it becomes index 0 otherwise.
  The last four lines spell the rule out.
\<close>

theorem list_replacement_selection:
  "vm_selectedRide (set_rides h m rs) = selectionRule (vm_selectedRide m) rs \<and>
   vm_selectedTrain (set_trains h m ts) = selectionRule (vm_selectedTrain m) ts \<and>
   vm_selectedVehicle (set_vehicles h m vs) = selectionRule (vm_selectedVehicle m) vs \<and>
   selectionRule prev [] = None \<and>
   (i < length items \<longrightarrow> selectionRule (Some (e, i)) items = Some (items ! i, i)) \<and>
   (items \<noteq> [] \<and> length items \<le> i \<longrightarrow> selectionRule (Some (e, i)) items = Some (items ! 0, 0)) \<and>
   (items \<noteq> [] \<longrightarrow> selectionRule None items = Some (items ! 0, 0))"
proof -
  have "vm_selectedRide (set_rides h m rs) = selectionRule (vm_selectedRide m) rs"
    by (simp add: set_rides_def updateSelectionOrNull_put)
  moreover have "vm_selectedTrain (set_trains h m ts) = selectionRule (vm_selectedTrain m) ts"
    by (simp add: set_trains_def updateSelectionOrNull_put)
  moreover have "vm_selectedVehicle (set_vehicles h m vs) = selectionRule (vm_selectedVehicle m) vs"
    by (simp add: set_vehicles_def updateSelectionOrNull_put)
  moreover have "i < length items \<longrightarrow> selectionRule (Some (e, i)) items = Some (items ! i, i)"
    by (auto simp: selectionRule_def)
  ultimately show ?thesis by (simp add: selectionRule_def)
qed

theorem list_replacement_selection_witness:
  "vm_selectedRide (set_rides (exampleHost 4) (fst exampleOpened) []) = None \<and>
   vm_selectedTrain (set_trains (exampleHost 4) (fst exampleOpened) [20, 21, 22]) = Some (20, 0) \<and>
   vm_selectedVehicle
     (set_vehicles (exampleHost 4)
        (set_selectedVehicle (exampleHost 4) (fst exampleOpened) (Some (101, 1)))
        [7, 8, 9]) = Some (8, 1) \<and>
   vm_selectedVehicle
     (set_vehicles (exampleHost 4)
        (set_selectedVehicle (exampleHost 4) (fst exampleOpened) (Some (101, 1)))
        [7]) = Some (7, 0)"
  using list_replacement_selection [of "exampleHost 4" "fst exampleOpened" "[]" "[20, 21, 22]" "[]"]
        list_replacement_selection [of "exampleHost 4"
          "set_selectedVehicle (exampleHost 4) (fst exampleOpened) (Some (101, 1))"
          "[]" "[]" "[7, 8, 9]"]
        list_replacement_selection [of "exampleHost 4"
          "set_selectedVehicle (exampleHost 4) (fst exampleOpened) (Some (101, 1))"
          "[]" "[]" "[7]"]
  by (simp add: selectionRule_def exampleOpened_eq)

section \<open>Edits go to the selected vehicle or to the copy targets\<close>




text \<open>
  Claim C3. A call of \<open>_modifyVehicle\<close> while no vehicle is selected never calls the
  action and leaves the view model as it was; all it does is write one line to the
  debug log.
\<close>

theorem modifyVehicle_without_selection:
  "vm_selectedVehicle m = None \<Longrightarrow> modifyVehicle h m val = (m, [LogDebug])"
  by (simp add: modifyVehicle_def)

theorem modifyVehicle_without_selection_witness:
  "vm_selectedVehicle (newVehicleViewModel (exampleHost 4)) = None \<and>
   modifyVehicle (exampleHost 4) (newVehicleViewModel (exampleHost 4)) (5 :: int) =
     (newVehicleViewModel (exampleHost 4), [LogDebug])"
proof -
  have n: "vm_selectedVehicle (newVehicleViewModel (exampleHost 4)) = None"
    by (simp add: newVehicleViewModel_def)
  show ?thesis using n modifyVehicle_without_selection [OF n, of "exampleHost 4" 5] by simp
qed

section \<open>What a game tick pulls\<close>



lemma identityFields_updateDynamicDataFromCar [simp]:
  "identityFields (updateDynamicDataFromCar h m c i) = identityFields m"
  by (simp add: identityFields_def updateDynamicDataFromCar_def Let_def split: option.split)
















lemma rideTypes_pulls [simp]:
  "vm_rideTypes (updateDynamicDataFromCar h m c i) = vm_rideTypes m"
  "vm_rideTypes (updateVehicleInfo h m v i) = vm_rideTypes m"
  by (simp_all add: updateVehicleInfo_def updateDynamicDataFromCar_def Let_def
        split: option.split)

lemma rideTypes_set_selectedVehicle [simp]:
  "vm_rideTypes (set_selectedVehicle h m sel) = vm_rideTypes m"
  by (auto simp: set_selectedVehicle_def Let_def split: option.split)

lemma rideTypes_set_vehicles [simp]:
  "vm_rideTypes (set_vehicles h m items) = vm_rideTypes m"
  by (simp add: set_vehicles_def updateSelectionOrNull_put)

lemma rideTypes_set_selectedTrain [simp]:
  "vm_rideTypes (set_selectedTrain h m sel) = vm_rideTypes m"
  by (auto simp: set_selectedTrain_def)

lemma rideTypes_set_trains [simp]:
  "vm_rideTypes (set_trains h m items) = vm_rideTypes m"
  by (simp add: set_trains_def updateSelectionOrNull_put)

lemma rideTypes_set_selectedRide [simp]:
  "vm_rideTypes (set_selectedRide h m sel) = vm_rideTypes m"
  by (auto simp: set_selectedRide_def)

lemma rideTypes_set_rides [simp]:
  "vm_rideTypes (set_rides h m items) = vm_rideTypes m"
  by (simp add: set_rides_def updateSelectionOrNull_put)


















section \<open>The copy filters\<close>

lemma setFilter_bit:
  "bit (vm_copyFilters (setFilter m f t)) n = (if bit f n then t else bit (vm_copyFilters m) n)"
  by (auto simp: setFilter_def Let_def bit_simps dest: bit_imp_le_length)

lemma setFilter_other:
  "setFilter m f t = m\<lparr> vm_copyFilters := vm_copyFilters (setFilter m f t) \<rparr>"
  by (simp add: setFilter_def Let_def)

text \<open>
  Claim C5. \<open>_setFilter(filter, toggle)\<close> changes the mask of the copy filters in the
  bits of \<open>filter\<close> only, which all become \<open>toggle\<close>, and writes no other store. So a
  toggle done twice is the toggle done once; enabling \<open>a\<close> and \<open>b\<close> gives the same mask
  in either order, with the bits of both set; and disabling \<open>a\<close> afterwards leaves
  every bit of \<open>b\<close> set that is not a bit of \<open>a\<close>: all of \<open>b\<close>, for filters \<open>a\<close> and \<open>b\<close>
  that share no bit.
\<close>

theorem setFilter_toggles_own_bits:
  "(\<forall>n. bit (vm_copyFilters (setFilter m f t)) n =
          (if bit f n then t else bit (vm_copyFilters m) n)) \<and>
   setFilter m f t = m\<lparr> vm_copyFilters := vm_copyFilters (setFilter m f t) \<rparr> \<and>
   setFilter (setFilter m f t) f t = setFilter m f t \<and>
   setFilter (setFilter m a True) b True = setFilter (setFilter m b True) a True \<and>
   vm_copyFilters (setFilter (setFilter m a True) b True) AND (a OR b) = a OR b \<and>
   vm_copyFilters (setFilter (setFilter (setFilter m a True) b True) a False) AND (b AND NOT a) =
     b AND NOT a \<and>
   (a AND b = 0 \<longrightarrow>
      vm_copyFilters (setFilter (setFilter (setFilter m a True) b True) a False) AND b = b)"
proof (intro conjI allI impI)
  show "vm_copyFilters (setFilter (setFilter (setFilter m a True) b True) a False) AND (b AND NOT a) =
          b AND NOT a"
    by (rule bit_eqI) (auto simp: setFilter_bit bit_simps)
  show "setFilter (setFilter m f t) f t = setFilter m f t"
    by (cases t) (simp_all add: setFilter_def Let_def or.assoc and.assoc)
  show "setFilter (setFilter m a True) b True = setFilter (setFilter m b True) a True"
    by (simp add: setFilter_def Let_def or.assoc or.commute [of a b])
  show "vm_copyFilters (setFilter (setFilter m a True) b True) AND (a OR b) = a OR b"
    by (rule bit_eqI) (auto simp: setFilter_bit bit_simps)
  show "vm_copyFilters (setFilter (setFilter (setFilter m a True) b True) a False) AND b = b"
    if "a AND b = 0"
  proof (rule bit_eqI)
    fix n
    from that have "\<not> (bit a n \<and> bit b n)"
      by (metis bit_and_iff bit_0_eq bot_apply bot_bool_def)
    then show "bit (vm_copyFilters
                      (setFilter (setFilter (setFilter m a True) b True) a False) AND b) n =
               bit b n"
      by (auto simp: setFilter_bit bit_simps)
  qed
qed (simp_all add: setFilter_bit setFilter_other [symmetric])

theorem setFilter_toggles_own_bits_witness:
  "(1 :: 32 word) AND 4 = 0 \<and>
   vm_copyFilters (setFilter (setFilter (fst exampleOpened) 1 True) 4 True) = 5 \<and>
   vm_copyFilters (setFilter (setFilter (fst exampleOpened) 4 True) 1 True) = 5 \<and>
   vm_copyFilters
     (setFilter (setFilter (setFilter (fst exampleOpened) 1 True) 4 True) 1 False) AND 4 = 4 \<and>
   vm_copyFilters
     (setFilter (setFilter (setFilter (fst exampleOpened) 1 True) 4 True) 1 False) = 4"
  using setFilter_toggles_own_bits [of "fst exampleOpened" 1 True 1 4]
  by (simp add: setFilter_def Let_def exampleOpened_eq)

section \<open>Subscriptions of the view model\<close>

lemma count_without:
  "distinct (map fst xs) \<Longrightarrow> (d, hk) \<in> set xs \<Longrightarrow>
   length (filter (\<lambda>s. snd s = hk') (filter (\<lambda>s. fst s \<noteq> d) xs)) + (if hk' = hk then 1 else 0) =
   length (filter (\<lambda>s. snd s = hk') xs)"
proof (induction xs)
  case Nil
  then show ?case by simp
next
  case (Cons x xs)
  show ?case
  proof (cases "x = (d, hk)")
    case True
    with Cons.prems have "d \<notin> fst ` set xs" by simp
    then have "filter (\<lambda>s. fst s \<noteq> d) xs = xs"
      by (auto simp: filter_id_conv)
    with True show ?thesis by simp
  next
    case False
    with Cons.prems have mem: "(d, hk) \<in> set xs" by simp
    with Cons.prems have "fst x \<noteq> d" by (auto simp: image_iff)
    with Cons.IH [OF _ mem] Cons.prems show ?thesis by simp
  qed
qed

lemma live_subscribe:
  "live (snd (subscribe k hk)) hk' = live k hk' + (if hk' = hk then 1 else 0)"
  by (simp add: live_def subscribe_def)

lemma wellFormed_subscribe:
  "wellFormed k \<Longrightarrow> wellFormed (snd (subscribe k hk))"
  by (auto simp: wellFormed_def subscribe_def less_Suc_eq)

lemma registered_subscribe_new:
  "registered (snd (subscribe k hk)) (Some (fst (subscribe k hk))) hk"
  by (simp add: registered_def subscribe_def)

lemma registered_subscribe_old:
  "registered k d hk' \<Longrightarrow> registered (snd (subscribe k hk)) d hk'"
  by (cases d) (simp_all add: registered_def subscribe_def)

lemma wellFormed_dispose:
  "wellFormed k \<Longrightarrow> wellFormed (dispose k d)"
  by (auto simp: wellFormed_def dispose_def distinct_map_filter)

lemma live_dispose:
  "wellFormed k \<Longrightarrow> (d, hk) \<in> set (subs k) \<Longrightarrow>
   live (dispose k d) hk' + (if hk' = hk then 1 else 0) = live k hk'"
  using count_without [of "subs k" d hk hk']
  by (simp add: wellFormed_def live_def dispose_def)

lemma registered_dispose_other:
  "wellFormed k \<Longrightarrow> (d, hk) \<in> set (subs k) \<Longrightarrow> (d', hk') \<in> set (subs k) \<Longrightarrow> hk \<noteq> hk' \<Longrightarrow>
   (d', hk') \<in> set (subs (dispose k d))"
  by (auto simp: wellFormed_def dispose_def dest: eq_key_imp_eq_value)

lemma subscribed_openViewModel:
  assumes "subscribed a t w"
  shows "subscribed a t (openViewModel h w)"
proof -
  let ?m3 = "set_rides h (fst w\<lparr> vm_isOpen := True, vm_rideTypes := getAllRideTypes h \<rparr>) (getAllRides h)"
  have hA: "vm_onPlayerAction ?m3 = vm_onPlayerAction (fst w)"
   and hT: "vm_onGameTick ?m3 = vm_onGameTick (fst w)" by simp_all
  show ?thesis
  proof (cases "vm_onPlayerAction (fst w)")
    case None
    note a = this
    show ?thesis
    proof (cases "vm_onGameTick (fst w)")
      case None
      with a assms hA hT show ?thesis
        by (simp add: openViewModel_def Let_def subscribed_def live_subscribe wellFormed_subscribe
              registered_subscribe_new registered_subscribe_old held_def)
    next
      case (Some d)
      with a assms hA hT show ?thesis
        by (simp add: openViewModel_def Let_def subscribed_def live_subscribe wellFormed_subscribe
              registered_subscribe_new registered_subscribe_old held_def)
    qed
  next
    case (Some d)
    note a = this
    show ?thesis
    proof (cases "vm_onGameTick (fst w)")
      case None
      with a assms hA hT show ?thesis
        by (simp add: openViewModel_def Let_def subscribed_def live_subscribe wellFormed_subscribe
              registered_subscribe_new registered_subscribe_old held_def)
    next
      case (Some d')
      with a assms hA hT show ?thesis
        by (simp add: openViewModel_def Let_def subscribed_def held_def)
    qed
  qed
qed

lemma subscribed_closeViewModel:
  assumes "subscribed a t w"
  shows "subscribed a t (closeViewModel w)"
proof -
  from assms have wf: "wellFormed (snd w)" by (simp add: subscribed_def)
  show ?thesis
  proof (cases "vm_onPlayerAction (fst w)")
    case None
    note a = this
    show ?thesis
    proof (cases "vm_onGameTick (fst w)")
      case None
      with a assms show ?thesis
        by (simp add: closeViewModel_def Let_def subscribed_def held_def registered_def)
    next
      case (Some d)
      with assms have mem: "(d, ''interval.tick'') \<in> set (subs (snd w))"
        by (simp add: subscribed_def registered_def)
      from live_dispose [OF wf mem, of "''interval.tick''"] live_dispose [OF wf mem, of "''action.execute''"]
      show ?thesis using a Some assms
        by (simp add: closeViewModel_def Let_def subscribed_def held_def registered_def wellFormed_dispose)
    qed
  next
    case (Some d)
    note a = this
    with assms have memA: "(d, ''action.execute'') \<in> set (subs (snd w))"
      by (simp add: subscribed_def registered_def)
    note lA = live_dispose [OF wf memA, of "''interval.tick''"] live_dispose [OF wf memA, of "''action.execute''"]
    show ?thesis
    proof (cases "vm_onGameTick (fst w)")
      case None
      with lA a assms show ?thesis
        by (simp add: closeViewModel_def Let_def subscribed_def held_def registered_def wellFormed_dispose)
    next
      case (Some d')
      with assms have memT: "(d', ''interval.tick'') \<in> set (subs (snd w))"
        by (simp add: subscribed_def registered_def)
      have memT': "(d', ''interval.tick'') \<in> set (subs (dispose (snd w) d))"
        by (rule registered_dispose_other [OF wf memA memT]) simp
      have wf': "wellFormed (dispose (snd w) d)" using wf by (rule wellFormed_dispose)
      from live_dispose [OF wf' memT', of "''interval.tick''"]
           live_dispose [OF wf' memT', of "''action.execute''"] lA
      show ?thesis using a Some assms
        by (simp add: closeViewModel_def Let_def subscribed_def held_def registered_def wellFormed_dispose)
    qed
  qed
qed

lemma setFilter_frame [simp]:
  "vm_onPlayerAction (setFilter m f b) = vm_onPlayerAction m"
  "vm_onGameTick (setFilter m f b) = vm_onGameTick m"
  by (simp_all add: setFilter_def Let_def)

lemma set_copyTargetOption_frame [simp]:
  "vm_onPlayerAction (set_copyTargetOption h m opt) = vm_onPlayerAction m"
  "vm_onGameTick (set_copyTargetOption h m opt) = vm_onGameTick m"
  by (simp_all add: set_copyTargetOption_def)

lemma onGameTickExecuted_frame [simp]:
  "vm_onPlayerAction (onGameTickExecuted h m) = vm_onPlayerAction m"
  "vm_onGameTick (onGameTickExecuted h m) = vm_onGameTick m"
  by (simp_all add: onGameTickExecuted_def split: option.split)

lemma onRefreshVehicle_frame [simp]:
  "vm_onPlayerAction (onRefreshVehicle h m ident) = vm_onPlayerAction m"
  "vm_onGameTick (onRefreshVehicle h m ident) = vm_onGameTick m"
  by (simp_all add: onRefreshVehicle_def split: option.split)

lemma subscribed_step:
  "subscribed a t w \<Longrightarrow> subscribed a t (step h w e)"
  by (cases e) (simp_all add: subscribed_openViewModel subscribed_closeViewModel, simp_all add: subscribed_def)

lemma subscribed_run:
  "subscribed a t w \<Longrightarrow> subscribed a t (run w es)"
  by (induction es arbitrary: w) (simp_all add: subscribed_step)

lemma subscribed_new:
  "wellFormed k \<Longrightarrow>
   subscribed (live k ''action.execute'') (live k ''interval.tick'') (newVehicleViewModel h, k)"
  by (simp add: subscribed_def newVehicleViewModel_def registered_def held_def)


lemma openViewModel_handles:
  "vm_onPlayerAction (fst (openViewModel h w)) \<noteq> None"
  "vm_onGameTick (fst (openViewModel h w)) \<noteq> None"
  by (simp_all add: openViewModel_def Let_def split: option.split)

lemma openViewModel_held:
  "vm_onPlayerAction (fst w) \<noteq> None \<Longrightarrow> vm_onGameTick (fst w) \<noteq> None \<Longrightarrow>
   snd (openViewModel h w) = snd w"
  by (auto simp: openViewModel_def Let_def)

lemma openViewModel_keeps:
  "vm_onPlayerAction (fst w) \<noteq> None \<Longrightarrow>
   live (snd (openViewModel h w)) ''action.execute'' = live (snd w) ''action.execute''"
  "vm_onGameTick (fst w) \<noteq> None \<Longrightarrow>
   live (snd (openViewModel h w)) ''interval.tick'' = live (snd w) ''interval.tick''"
  by (auto simp: openViewModel_def Let_def live_subscribe split: option.split)

lemma closeViewModel_handles:
  "vm_onPlayerAction (fst (closeViewModel w)) = None"
  "vm_onGameTick (fst (closeViewModel w)) = None"
  by (simp_all add: closeViewModel_def Let_def)

text \<open>
  Claim C6. Start from a freshly built view model and a well-formed registry, and let
  any events happen. At every moment the view model has at most one live
  subscription to executed actions and at most one to game ticks: the number of live
  subscriptions to each hook is the number there was at the start, plus one exactly
  while the view model holds the handle. \<open>_open\<close> leaves both handles held, subscribes
  to a hook only when its handle is absent, and so changes nothing in the registry
  when it runs a second time; \<open>_close\<close> disposes both subscriptions and clears both
  handles.
\<close>

theorem subscriptions_at_most_one:
  assumes "wellFormed k0" and "w = run (newVehicleViewModel h0, k0) es"
  shows "live (snd w) ''action.execute'' \<le> live k0 ''action.execute'' + 1 \<and>
         live (snd w) ''interval.tick'' \<le> live k0 ''interval.tick'' + 1 \<and>
         live (snd w) ''action.execute'' =
           live k0 ''action.execute'' + held (vm_onPlayerAction (fst w)) \<and>
         live (snd w) ''interval.tick'' =
           live k0 ''interval.tick'' + held (vm_onGameTick (fst w)) \<and>
         vm_onPlayerAction (fst (openViewModel h w)) \<noteq> None \<and>
         vm_onGameTick (fst (openViewModel h w)) \<noteq> None \<and>
         (vm_onPlayerAction (fst w) \<noteq> None \<longrightarrow>
            live (snd (openViewModel h w)) ''action.execute'' = live (snd w) ''action.execute'') \<and>
         (vm_onGameTick (fst w) \<noteq> None \<longrightarrow>
            live (snd (openViewModel h w)) ''interval.tick'' = live (snd w) ''interval.tick'') \<and>
         snd (openViewModel h (openViewModel h w)) = snd (openViewModel h w) \<and>
         vm_onPlayerAction (fst (closeViewModel w)) = None \<and>
         vm_onGameTick (fst (closeViewModel w)) = None \<and>
         live (snd (closeViewModel w)) ''action.execute'' = live k0 ''action.execute'' \<and>
         live (snd (closeViewModel w)) ''interval.tick'' = live k0 ''interval.tick''"
proof -
  let ?a = "live k0 ''action.execute''" and ?t = "live k0 ''interval.tick''"
  have inv: "subscribed ?a ?t w"
    unfolding assms(2) using assms(1) by (intro subscribed_run subscribed_new)
  then have now: "live (snd w) ''action.execute'' = ?a + held (vm_onPlayerAction (fst w))"
                 "live (snd w) ''interval.tick'' = ?t + held (vm_onGameTick (fst w))"
    by (simp_all add: subscribed_def)
  have "held (vm_onPlayerAction (fst w)) \<le> 1" "held (vm_onGameTick (fst w)) \<le> 1"
    by (simp_all add: held_def split: option.split)
  with now have bound: "live (snd w) ''action.execute'' \<le> ?a + 1"
                       "live (snd w) ''interval.tick'' \<le> ?t + 1"
    by simp_all
  from inv have "subscribed ?a ?t (closeViewModel w)" by (rule subscribed_closeViewModel)
  then have closed: "live (snd (closeViewModel w)) ''action.execute'' = ?a"
                    "live (snd (closeViewModel w)) ''interval.tick'' = ?t"
    by (simp_all add: subscribed_def closeViewModel_handles held_def)
  have twice: "snd (openViewModel h (openViewModel h w)) = snd (openViewModel h w)"
    by (rule openViewModel_held) (rule openViewModel_handles)+
  show ?thesis
    using now bound closed twice openViewModel_handles [of h w] closeViewModel_handles [of w]
          openViewModel_keeps [of w h]
    by simp
qed

theorem subscriptions_at_most_one_witness:
  "wellFormed emptyRegistry \<and>
   live (snd (run (newVehicleViewModel (exampleHost 4), emptyRegistry)
                 [(exampleHost 4, Open), (exampleHost 4, Open), (exampleHost 6, Tick)])) ''action.execute'' = 1 \<and>
   live (snd (run (newVehicleViewModel (exampleHost 4), emptyRegistry)
                 [(exampleHost 4, Open), (exampleHost 4, Open), (exampleHost 6, Tick)])) ''interval.tick'' = 1 \<and>
   live (snd (closeViewModel
                (run (newVehicleViewModel (exampleHost 4), emptyRegistry)
                   [(exampleHost 4, Open), (exampleHost 4, Open), (exampleHost 6, Tick)]))) ''interval.tick'' = 0"
proof -
  have wf: "wellFormed emptyRegistry" by (simp add: wellFormed_def emptyRegistry_def)
  have hs: "vm_onPlayerAction
              (fst (run (newVehicleViewModel (exampleHost 4), emptyRegistry)
                      [(exampleHost 4, Open), (exampleHost 4, Open), (exampleHost 6, Tick)])) = Some 0"
           "vm_onGameTick
              (fst (run (newVehicleViewModel (exampleHost 4), emptyRegistry)
                      [(exampleHost 4, Open), (exampleHost 4, Open), (exampleHost 6, Tick)])) = Some 1"
    by (simp_all add: cascade_defs Let_def exampleHost_def exampleCar_def onGameTickExecuted_def)
  show ?thesis
    using wf hs subscriptions_at_most_one [OF wf refl, of "exampleHost 4"
            "[(exampleHost 4, Open), (exampleHost 4, Open), (exampleHost 6, Tick)]" "exampleHost 4"]
    by (simp add: held_def live_def emptyRegistry_def)
qed

section \<open>The clipboard\<close>

lemma onClickCopy_open:
  "window e = Some b \<Longrightarrow>
   onClickCopy c e =
     Inr (if copyPressed b
          then e\<lparr> copiedVehicleSettings := None,
                  window := Some \<lparr> copyPressed = False, pasteDisabled = True \<rparr> \<rparr>
          else case c of
                 None \<Rightarrow> e\<lparr> window := Some (b\<lparr> pasteDisabled := True \<rparr>) \<rparr>
               | Some None \<Rightarrow> e\<lparr> copiedVehicleSettings := None,
                                 window := Some (b\<lparr> pasteDisabled := True \<rparr>) \<rparr>
               | Some (Some s) \<Rightarrow>
                   e\<lparr> copiedVehicleSettings := Some s,
                      window := Some \<lparr> copyPressed = True, pasteDisabled = False \<rparr> \<rparr>)"
  by (cases b) (auto simp: onClickCopy_def Let_def split: option.split)

text \<open>
  Claim C7, as the code has it. The clipboard starts empty. A click on paste while
  the clipboard is empty calls no handler and changes nothing. The copy button is a
  toggle: a click while it is not pressed stores exactly what the copy handler
  returns, whatever the clipboard held; a click while it is pressed empties the
  clipboard. So after one copy, the next click on copy empties the clipboard and the
  click after that stores the new snapshot alone. The clipboard holds one snapshot
  or none.
\<close>

theorem clipboard_holds_last_copy:
  "copiedVehicleSettings (initialEditor :: 's editor) = None \<and>
   (copiedVehicleSettings e = None \<longrightarrow> onClickPaste p e = (e, [])) \<and>
   (window e = Some b \<and> \<not> copyPressed b \<longrightarrow>
      (\<exists>e'. onClickCopy (Some r) e = Inr e' \<and> copiedVehicleSettings e' = r)) \<and>
   (window e = Some b \<and> copyPressed b \<longrightarrow>
      (\<exists>e'. onClickCopy c e = Inr e' \<and> copiedVehicleSettings e' = None)) \<and>
   (\<exists>e'. clicks [Some (Some s1), c, Some (Some s2)] (createWindow (initialEditor :: 's editor)) = Inr e' \<and>
         copiedVehicleSettings e' = Some s2)"
proof (intro conjI impI)
  show "copiedVehicleSettings (initialEditor :: 's editor) = None"
    by (simp add: initialEditor_def)
  show "onClickPaste p e = (e, [])" if "copiedVehicleSettings e = None"
    using that by (simp add: onClickPaste_def)
  show "\<exists>e'. onClickCopy (Some r) e = Inr e' \<and> copiedVehicleSettings e' = r"
    if "window e = Some b \<and> \<not> copyPressed b"
    using that by (cases r) (simp_all add: onClickCopy_open)
  show "\<exists>e'. onClickCopy c e = Inr e' \<and> copiedVehicleSettings e' = None"
    if "window e = Some b \<and> copyPressed b"
    using that by (simp add: onClickCopy_open)
  show "\<exists>e'. clicks [Some (Some s1), c, Some (Some s2)] (createWindow (initialEditor :: 's editor)) = Inr e' \<and>
         copiedVehicleSettings e' = Some s2"
    by (simp add: onClickCopy_open createWindow_def initialEditor_def)
qed

theorem clipboard_holds_last_copy_witness:
  "copiedVehicleSettings (initialEditor :: nat editor) = None \<and>
   onClickPaste True (initialEditor :: nat editor) = (initialEditor, []) \<and>
   (\<exists>e'. onClickCopy (Some (Some 7)) (createWindow (initialEditor :: nat editor)) = Inr e' \<and>
         copiedVehicleSettings e' = Some (7 :: nat)) \<and>
   (\<exists>e'. clicks [Some (Some 7), Some (Some 8), Some (Some 9)] (createWindow (initialEditor :: nat editor)) = Inr e' \<and>
         copiedVehicleSettings e' = Some (9 :: nat))"
  using clipboard_holds_last_copy
          [of "initialEditor :: nat editor" True "\<lparr> copyPressed = False, pasteDisabled = True \<rparr>"
              "Some 7" "Some (Some 8)" 7 9]
        clipboard_holds_last_copy
          [of "createWindow (initialEditor :: nat editor)" True "\<lparr> copyPressed = False, pasteDisabled = True \<rparr>"
              "Some 7" "Some (Some 8)" 7 9]
  by (simp add: initialEditor_def createWindow_def)

text \<open>
  Against claim C7 as stated (after one copy, a second copy replaces the snapshot):
  the window is created, copy is clicked while the handler returns the settings 7,
  and clicked again while the handler would return the settings 8. The clipboard is
  then empty, and the paste button disabled.
\<close>

theorem second_click_clears_clipboard:
  "clicks [Some (Some (7 :: nat)), Some (Some 8)] (createWindow initialEditor) =
     Inr \<lparr> copiedVehicleSettings = None,
           window = Some \<lparr> copyPressed = False, pasteDisabled = True \<rparr> \<rparr>"
  by (simp add: onClickCopy_def createWindow_def initialEditor_def Let_def)

section \<open>The value of a spinner\<close>

lemma performWrapMode_within:
  "keepsWithin (wrap hp) \<Longrightarrow> keepsWithin (clamp hp) \<Longrightarrow> sp_minimum s < sp_maximum s \<Longrightarrow>
   sp_minimum s \<le> performWrapMode hp s v \<and> performWrapMode hp s v \<le> sp_maximum s - 1"
proof -
  assume w: "keepsWithin (wrap hp)" and c: "keepsWithin (clamp hp)"
     and lt: "sp_minimum s < sp_maximum s"
  from lt have le: "sp_minimum s \<le> sp_maximum s - 1" by simp
  from w le have "sp_minimum s \<le> wrap hp v (sp_minimum s) (sp_maximum s - 1) \<and>
                  wrap hp v (sp_minimum s) (sp_maximum s - 1) \<le> sp_maximum s - 1"
    unfolding keepsWithin_def by blast
  moreover from c le have "sp_minimum s \<le> clamp hp v (sp_minimum s) (sp_maximum s - 1) \<and>
                  clamp hp v (sp_minimum s) (sp_maximum s - 1) \<le> sp_maximum s - 1"
    unfolding keepsWithin_def by blast
  ultimately show ?thesis
    by (cases "sp_wrapMode s") (simp_all add: performWrapMode_def)
qed

lemma refreshWidget_frame [simp]:
  "sp_value (refreshWidget s) = sp_value s"
  "sp_minimum (refreshWidget s) = sp_minimum s"
  "sp_maximum (refreshWidget s) = sp_maximum s"
  "sp_isActive (refreshWidget s) = sp_isActive s"
  "sp_wrapMode (refreshWidget s) = sp_wrapMode s"
  by (simp_all add: refreshWidget_def)

lemma keepsWithin_range: "keepsWithin wrapRange" "keepsWithin clampRange"
proof -
  show "keepsWithin wrapRange"
    unfolding keepsWithin_def wrapRange_def
  proof (intro allI impI)
    fix v lo hi :: int
    assume "lo \<le> hi"
    then have pos: "0 < hi - lo + 1" by simp
    from pos have "0 \<le> (v - lo) mod (hi - lo + 1)" by (rule pos_mod_sign)
    moreover from pos have "(v - lo) mod (hi - lo + 1) < hi - lo + 1" by (rule pos_mod_bound)
    ultimately show "lo \<le> lo + (v - lo) mod (hi - lo + 1) \<and> lo + (v - lo) mod (hi - lo + 1) \<le> hi"
      by simp
  qed
  show "keepsWithin clampRange"
    by (simp add: keepsWithin_def clampRange_def)
qed

text \<open>
  Claim C10, as the code has it, for helpers \<open>wrap\<close> and \<open>clamp\<close> that keep within the
  bounds they are given. \<open>set(value)\<close> leaves the spinner as it is when the minimum is
  not below the maximum, and also when the value is the stored one and the spinner is
  active. Otherwise it stores the value wrapped or clamped by the wrap mode, which
  lies from the minimum to the maximum minus one. So a stored value that is within
  the bounds stays within them.
\<close>

theorem set_spinner_within_bounds:
  assumes "keepsWithin (wrap hp)" and "keepsWithin (clamp hp)"
  shows "(sp_minimum s \<ge> sp_maximum s \<longrightarrow> set_spinner hp s v = s) \<and>
         (sp_minimum s < sp_maximum s \<and> v = sp_value s \<and> sp_isActive s \<longrightarrow>
            set_spinner hp s v = s) \<and>
         (sp_minimum s < sp_maximum s \<and> \<not> (v = sp_value s \<and> sp_isActive s) \<longrightarrow>
            sp_value (set_spinner hp s v) = performWrapMode hp s v \<and>
            withinBounds (set_spinner hp s v)) \<and>
         (sp_minimum s < sp_maximum s \<and> withinBounds s \<longrightarrow> withinBounds (set_spinner hp s v))"
proof -
  have new: "sp_value (set_spinner hp s v) = performWrapMode hp s v \<and>
             withinBounds (set_spinner hp s v)"
    if "sp_minimum s < sp_maximum s" "\<not> (v = sp_value s \<and> sp_isActive s)"
  proof -
    from that have "set_spinner hp s v =
        refreshWidget (s\<lparr> sp_isActive := True, sp_value := performWrapMode hp s v \<rparr>)"
      by (auto simp: set_spinner_def)
    with performWrapMode_within [OF assms that(1), of v] show ?thesis
      by (simp add: withinBounds_def)
  qed
  have keep: "withinBounds (set_spinner hp s v)"
    if "sp_minimum s < sp_maximum s" "withinBounds s"
  proof (cases "v = sp_value s \<and> sp_isActive s")
    case True
    with that show ?thesis by (simp add: set_spinner_def)
  next
    case False
    with new that(1) show ?thesis by blast
  qed
  show ?thesis using new keep by (auto simp: set_spinner_def)
qed

theorem set_spinner_within_bounds_witness:
  "keepsWithin (wrap rangeHelpers) \<and> keepsWithin (clamp rangeHelpers) \<and>
   sp_value (set_spinner rangeHelpers exampleSpinner 13) = 3 \<and>
   sp_value (set_spinner rangeHelpers (exampleSpinner\<lparr> sp_wrapMode := Clamp \<rparr>) 13) = 9 \<and>
   set_spinner rangeHelpers (exampleSpinner\<lparr> sp_maximum := 0 \<rparr>) 13 = exampleSpinner\<lparr> sp_maximum := 0 \<rparr>"
proof -
  have k: "keepsWithin (wrap rangeHelpers)" "keepsWithin (clamp rangeHelpers)"
    by (simp_all add: rangeHelpers_def keepsWithin_range)
  show ?thesis
    using k set_spinner_within_bounds [OF k, of exampleSpinner 13]
          set_spinner_within_bounds [OF k, of "exampleSpinner\<lparr> sp_wrapMode := Clamp \<rparr>" 13]
          set_spinner_within_bounds [OF k, of "exampleSpinner\<lparr> sp_maximum := 0 \<rparr>" 13]
    by (simp add: exampleSpinner_def performWrapMode_def rangeHelpers_def wrapRange_def clampRange_def)
qed

text \<open>
  Against claim C10 as stated (with the minimum below the maximum the stored value
  always ends within the bounds): a spinner from 0 to 10 is set to 5; its maximum is
  then lowered to 3 and it is set to 5 again. The value is the stored one and the
  spinner is active, so nothing is done, whatever the helpers are, and the stored
  value 5 is above 2.
\<close>

theorem set_spinner_unchanged_value_escapes:
  "(set_spinner rangeHelpers exampleSpinner 5)\<lparr> sp_maximum := 3 \<rparr> = staleSpinner \<and>
   sp_minimum staleSpinner < sp_maximum staleSpinner \<and>
   (\<forall>hp. set_spinner hp staleSpinner 5 = staleSpinner) \<and>
   sp_value staleSpinner = 5 \<and>
   \<not> withinBounds staleSpinner"
  by (simp add: set_spinner_def exampleSpinner_def staleSpinner_def performWrapMode_def
        rangeHelpers_def wrapRange_def refreshWidget_def withinBounds_def toString_def
        showNat.simps digit_def)

section \<open>Fields without a selection\<close>

lemma mirrored_set_selectedVehicle_None [simp]:
  "mirrored (set_selectedVehicle h m None) = mirrored m"
  by (simp add: set_selectedVehicle_def Let_def mirrored_def)














section \<open>The spacing that cannot be determined\<close>










end
